theory Spec2Isabelle
  imports Complex_Main "HOL-Library.Multiset"
begin

section \<open>Data model\<close>

text \<open>
  The dashboard (\<^verbatim>\<open>app.py\<close>) works on one pandas DataFrame of orders. A cell of the
  frame that \<^verbatim>\<open>pd.read_csv\<close> returns is missing (NaN), a number, or text. Numbers are
  exact reals here; where a claim depends on the rounding of float64, the section on
  float64 arithmetic below models it. The infinities of float64 and the wrap-around of
  int64 are outside the model.
\<close>

datatype cell = NA | Num real | Str string

datatype error = ValueError

text \<open>
  One row of the raw frame. The columns \<^verbatim>\<open>order_id\<close>, \<^verbatim>\<open>order_date\<close>, \<^verbatim>\<open>order_value\<close>,
  \<^verbatim>\<open>delivery_time_minutes\<close>, \<^verbatim>\<open>order_status\<close>, \<^verbatim>\<open>city\<close> and \<^verbatim>\<open>customer_id\<close> are
  always there; \<^verbatim>\<open>is_repeat_customer\<close> is a column of the frame or not
  (\<open>has_repeat_column\<close>), and its cell is read only when it is.
\<close>

record raw_order =
  raw_order_id :: cell
  raw_order_date :: cell
  raw_order_value :: cell
  raw_delivery_time_minutes :: cell
  raw_order_status :: cell
  raw_city :: cell
  raw_customer_id :: cell
  raw_is_repeat_customer :: cell

record raw_frame =
  has_repeat_column :: bool
  raw_rows :: "raw_order list"

text \<open>
  One row of the cleaned frame. \<open>order_date\<close> is a datetime64 value, nanoseconds since
  the epoch, with \<open>None\<close> for NaT; \<open>delivery_time_minutes\<close> keeps \<open>None\<close> for NaN.
\<close>

record order_rec =
  order_id :: cell
  order_date :: "int option"
  order_value :: real
  delivery_time_minutes :: "real option"
  order_status :: string
  city :: cell
  customer_id :: cell
  is_repeat_customer :: int

text \<open>
  The conversions of pandas are not code of the dashboard; they are parameters.
  \<open>pd_to_datetime\<close> is \<^verbatim>\<open>pd.to_datetime(errors='coerce')\<close> on a whole column, one entry for
  each cell: pandas settles the format of a column from its first cells, so the entry
  of a cell can depend on the other cells. \<open>pd_parse_numeric\<close> is
  \<^verbatim>\<open>pd.to_numeric(errors='coerce')\<close> on text (\<open>None\<close> where the text is no number),
  \<open>pd_parse_int\<close> is \<^verbatim>\<open>int(s)\<close> (\<open>None\<close> where it raises) and \<open>pd_str_of_num\<close> is
  \<^verbatim>\<open>str(x)\<close>.
\<close>

record pandas =
  pd_to_datetime :: "cell list \<Rightarrow> int option list"
  pd_parse_numeric :: "string \<Rightarrow> real option"
  pd_parse_int :: "string \<Rightarrow> int option"
  pd_str_of_num :: "real \<Rightarrow> string"

section \<open>Data loading and cleaning\<close>

text \<open>The converted column; a missing cell is NaT whatever the column holds.\<close>

definition to_datetime :: "pandas \<Rightarrow> cell list \<Rightarrow> int option list" where
  "to_datetime pd col =
     map (\<lambda>(c, d). case c of NA \<Rightarrow> None | _ \<Rightarrow> d) (zip col (pd_to_datetime pd col))"

definition to_numeric :: "pandas \<Rightarrow> cell \<Rightarrow> real option" where
  "to_numeric pd c =
     (case c of NA \<Rightarrow> None | Num x \<Rightarrow> Some x | Str s \<Rightarrow> pd_parse_numeric pd s)"

definition fillna :: "real \<Rightarrow> real option \<Rightarrow> real" where
  "fillna d v = (case v of None \<Rightarrow> d | Some x \<Rightarrow> x)"

definition astype_str :: "pandas \<Rightarrow> cell \<Rightarrow> string" where
  "astype_str pd c =
     (case c of NA \<Rightarrow> ''nan'' | Num x \<Rightarrow> pd_str_of_num pd x | Str s \<Rightarrow> s)"

text \<open>\<^verbatim>\<open>astype(int)\<close> raises on a missing value and on text that is no integer; a
  number is cut towards zero and cast to int64, and one outside the range of int64 comes
  out as the least int64.\<close>

definition astype_int :: "pandas \<Rightarrow> cell \<Rightarrow> error + int" where
  "astype_int pd c =
     (case c of
        NA \<Rightarrow> Inl ValueError
      | Num x \<Rightarrow>
          Inr (let t = (if 0 \<le> x then \<lfloor>x\<rfloor> else \<lceil>x\<rceil>)
               in if - (2 ^ 63) \<le> t \<and> t < 2 ^ 63 then t else - (2 ^ 63))
      | Str s \<Rightarrow> (case pd_parse_int pd s of None \<Rightarrow> Inl ValueError | Some i \<Rightarrow> Inr i))"

text \<open>The frame after line 38: each raw row with its converted \<open>order_date\<close>.\<close>

definition dated_rows :: "pandas \<Rightarrow> raw_frame \<Rightarrow> (raw_order \<times> int option) list" where
  "dated_rows pd df = zip (raw_rows df) (to_datetime pd (map raw_order_date (raw_rows df)))"

text \<open>The rows that \<^verbatim>\<open>dropna(subset=['order_date'])\<close> keeps (line 39).\<close>

definition dropna_order_date ::
  "(raw_order \<times> int option) list \<Rightarrow> (raw_order \<times> int option) list" where
  "dropna_order_date dated = filter (\<lambda>(r, d). d \<noteq> None) dated"

text \<open>Lines 40-46 on one kept row; the only step that can raise is \<^verbatim>\<open>astype(int)\<close>.\<close>

definition clean_row :: "pandas \<Rightarrow> bool \<Rightarrow> raw_order \<times> int option \<Rightarrow> error + order_rec" where
  "clean_row pd has_col rd =
     (case rd of (r, d) \<Rightarrow>
        (case (if has_col then astype_int pd (raw_is_repeat_customer r) else Inr 0) of
           Inl e \<Rightarrow> Inl e
         | Inr flag \<Rightarrow>
             Inr \<lparr> order_id = raw_order_id r,
                   order_date = d,
                   order_value = fillna 0 (to_numeric pd (raw_order_value r)),
                   delivery_time_minutes = to_numeric pd (raw_delivery_time_minutes r),
                   order_status = astype_str pd (raw_order_status r),
                   city = raw_city r,
                   customer_id = raw_customer_id r,
                   is_repeat_customer = flag \<rparr>))"

fun collect :: "(error + 'a) list \<Rightarrow> error + 'a list" where
  "collect [] = Inr []"
| "collect (Inl e # xs) = Inl e"
| "collect (Inr x # xs) = (case collect xs of Inl e \<Rightarrow> Inl e | Inr ys \<Rightarrow> Inr (x # ys))"

definition load_data :: "pandas \<Rightarrow> raw_frame \<Rightarrow> error + order_rec list" where
  "load_data pd df =
     collect (map (clean_row pd (has_repeat_column df)) (dropna_order_date (dated_rows pd df)))"

section \<open>KPI computation\<close>

record kpis =
  total_revenue :: real
  total_orders :: nat
  aov :: real
  repeat_rate :: real
  cancellation_rate :: real

text \<open>\<^verbatim>\<open>Series.nunique()\<close>: the number of distinct values, missing ones left out.\<close>

definition nunique :: "cell list \<Rightarrow> nat" where
  "nunique xs = length (remdups (filter (\<lambda>c. c \<noteq> NA) xs))"

text \<open>\<^verbatim>\<open>Series.value_counts()\<close> as an association list from each value to the number of
  rows holding it, and \<^verbatim>\<open>.get(key, default)\<close> on it.\<close>

definition value_counts :: "string list \<Rightarrow> (string \<times> nat) list" where
  "value_counts xs = map (\<lambda>v. (v, length (filter (\<lambda>x. x = v) xs))) (remdups xs)"

definition series_get :: "(string \<times> nat) list \<Rightarrow> string \<Rightarrow> nat \<Rightarrow> nat" where
  "series_get s k d = (case map_of s k of None \<Rightarrow> d | Some n \<Rightarrow> n)"

definition compute_kpis :: "order_rec list \<Rightarrow> kpis" where
  "compute_kpis df =
     (let total_revenue = sum_list (map order_value df);
          total_orders = nunique (map order_id df);
          aov = (if total_orders > 0 then total_revenue / real total_orders else 0);
          repeat_customers =
            nunique (map customer_id (filter (\<lambda>r. is_repeat_customer r = 1) df));
          unique_customers = nunique (map customer_id df);
          repeat_rate = (if unique_customers > 0
                         then (real repeat_customers / real unique_customers) * 100 else 0);
          cancellation_rate =
            (if total_orders > 0
             then (real (series_get (value_counts (map order_status df)) ''Cancelled'' 0)
                     / real total_orders) * 100
             else 0)
      in \<lparr> total_revenue = total_revenue, total_orders = total_orders, aov = aov,
           repeat_rate = repeat_rate, cancellation_rate = cancellation_rate \<rparr>)"

section \<open>The KPIs in float64 arithmetic\<close>




section \<open>Daily aggregates\<close>

definition ns_per_day :: int where
  "ns_per_day = 86400000000000"

text \<open>\<^verbatim>\<open>.dt.date\<close>: the calendar day of a timestamp, as a day number; NaT stays missing.\<close>

definition dt_date :: "int option \<Rightarrow> int option" where
  "dt_date t = map_option (\<lambda>n. n div ns_per_day) t"

text \<open>The keys of \<^verbatim>\<open>df.groupby(df['order_date'].dt.date)\<close>: the distinct days in
  ascending order; a row with a missing key is in no group.\<close>

definition groupby_days :: "order_rec list \<Rightarrow> int list" where
  "groupby_days df = sort (remdups (List.map_filter (\<lambda>r. dt_date (order_date r)) df))"

definition day_group :: "order_rec list \<Rightarrow> int \<Rightarrow> order_rec list" where
  "day_group df d = filter (\<lambda>r. dt_date (order_date r) = Some d) df"

text \<open>The \<^verbatim>\<open>daily\<close> table of \<^verbatim>\<open>fig_revenue_trend\<close>: the sum of \<open>order_value\<close> per day.\<close>

definition fig_revenue_trend :: "order_rec list \<Rightarrow> (int \<times> real) list" where
  "fig_revenue_trend df =
     map (\<lambda>d. (d, sum_list (map order_value (day_group df d)))) (groupby_days df)"

text \<open>The \<^verbatim>\<open>daily\<close> table of \<^verbatim>\<open>fig_orders_volume_trend\<close>: \<^verbatim>\<open>'count'\<close> on \<open>order_id\<close>
  counts the rows of the day whose \<open>order_id\<close> is not missing.\<close>

definition fig_orders_volume_trend :: "order_rec list \<Rightarrow> (int \<times> nat) list" where
  "fig_orders_volume_trend df =
     map (\<lambda>d. (d, length (filter (\<lambda>r. order_id r \<noteq> NA) (day_group df d)))) (groupby_days df)"

section \<open>The filter of the central callback\<close>

text \<open>
  The \<^verbatim>\<open># Apply filters\<close> block of \<^verbatim>\<open>update_dashboard\<close> (lines 194-202). A date bound is
  \<open>None\<close> where the source's \<^verbatim>\<open>if start_date:\<close> is false, and \<open>Some t\<close> with \<open>t\<close> the
  timestamp \<^verbatim>\<open>pd.to_datetime(start_date)\<close> otherwise. A comparison with NaT is false.
  A selection is \<open>None\<close> for Python's \<^verbatim>\<open>None\<close>; \<^verbatim>\<open>if selected_cities:\<close> is also false on
  the empty list.
\<close>

definition filter_start :: "int option \<Rightarrow> order_rec list \<Rightarrow> order_rec list" where
  "filter_start start_date dff =
     (case start_date of
        None \<Rightarrow> dff
      | Some t \<Rightarrow> filter (\<lambda>r. case order_date r of None \<Rightarrow> False | Some d \<Rightarrow> d \<ge> t) dff)"

definition filter_end :: "int option \<Rightarrow> order_rec list \<Rightarrow> order_rec list" where
  "filter_end end_date dff =
     (case end_date of
        None \<Rightarrow> dff
      | Some t \<Rightarrow> filter (\<lambda>r. case order_date r of None \<Rightarrow> False | Some d \<Rightarrow> d \<le> t) dff)"

definition truthy :: "'a list option \<Rightarrow> bool" where
  "truthy sel = (case sel of None \<Rightarrow> False | Some xs \<Rightarrow> xs \<noteq> [])"

definition filter_city :: "cell list option \<Rightarrow> order_rec list \<Rightarrow> order_rec list" where
  "filter_city selected_cities dff =
     (if truthy selected_cities
      then filter (\<lambda>r. city r \<in> set (the selected_cities)) dff else dff)"

definition filter_status :: "string list option \<Rightarrow> order_rec list \<Rightarrow> order_rec list" where
  "filter_status selected_statuses dff =
     (if truthy selected_statuses
      then filter (\<lambda>r. order_status r \<in> set (the selected_statuses)) dff else dff)"

definition apply_filters ::
  "order_rec list \<Rightarrow> int option \<Rightarrow> int option \<Rightarrow> cell list option \<Rightarrow> string list option
     \<Rightarrow> order_rec list" where
  "apply_filters orders start_date end_date selected_cities selected_statuses =
     filter_status selected_statuses
       (filter_city selected_cities (filter_end end_date (filter_start start_date orders)))"

text \<open>What the callback computes from the filtered frame: the KPIs and the two daily
  tables. The other three figures plot columns of the same frame.\<close>

record dashboard =
  d_kpis :: kpis
  d_revenue_trend :: "(int \<times> real) list"
  d_orders_volume_trend :: "(int \<times> nat) list"

definition update_dashboard ::
  "order_rec list \<Rightarrow> int option \<Rightarrow> int option \<Rightarrow> cell list option \<Rightarrow> string list option
     \<Rightarrow> dashboard" where
  "update_dashboard orders start_date end_date selected_cities selected_statuses =
     (let dff = apply_filters orders start_date end_date selected_cities selected_statuses
      in \<lparr> d_kpis = compute_kpis dff,
           d_revenue_trend = fig_revenue_trend dff,
           d_orders_volume_trend = fig_orders_volume_trend dff \<rparr>)"

text \<open>
  The range the date picker starts with (lines 151-156): the day of the least and of the
  greatest \<open>order_date\<close>, NaT left out. The callback receives the two days as ISO date
  strings, and \<^verbatim>\<open>pd.to_datetime\<close> of a date string is the midnight that starts the day.
\<close>

definition date_picker_range :: "order_rec list \<Rightarrow> int option \<times> int option" where
  "date_picker_range orders =
     (case List.map_filter order_date orders of
        [] \<Rightarrow> (None, None)
      | d # ds \<Rightarrow> (Some (fold min ds d div ns_per_day * ns_per_day),
                   Some (fold max ds d div ns_per_day * ns_per_day)))"

section \<open>The filter as the specification words it\<close>

text \<open>
  The specification's wording of the two kinds of predicate, to compare the code with:
  a record is in the date range if \<open>start \<le> order_date\<close> when a start is given and
  \<open>order_date \<le> end\<close> when an end is given; a value passes a selection if it is in the
  supplied set, and an empty or absent set is no constraint.
\<close>

definition spec_date_in_range :: "int option \<Rightarrow> int option \<Rightarrow> order_rec \<Rightarrow> bool" where
  "spec_date_in_range start_date end_date r \<longleftrightarrow>
     (case start_date of None \<Rightarrow> True
      | Some t \<Rightarrow> (case order_date r of None \<Rightarrow> False | Some d \<Rightarrow> t \<le> d)) \<and>
     (case end_date of None \<Rightarrow> True
      | Some t \<Rightarrow> (case order_date r of None \<Rightarrow> False | Some d \<Rightarrow> d \<le> t))"

definition spec_selected :: "'a list option \<Rightarrow> 'a \<Rightarrow> bool" where
  "spec_selected sel v \<longleftrightarrow> (case sel of None \<Rightarrow> True | Some xs \<Rightarrow> xs = [] \<or> v \<in> set xs)"

section \<open>Sample data\<close>

text \<open>
  Concrete rows and two concrete instances of the conversions for the examples below.
  \<open>pd_numbers_only\<close> is for frames whose cells are numbers: a number given as a date is its
  count of nanoseconds since the epoch. \<open>pd_sample\<close> is for frames read as text: it gives
  what pandas gives on a column of ISO dates that starts with a valid one (the three
  days \<^verbatim>\<open>2024-01-01\<close> to \<^verbatim>\<open>2024-01-03\<close>, NaT for any other text) and on the numerals
  \<^verbatim>\<open>12\<close>, \<^verbatim>\<open>0\<close> and \<^verbatim>\<open>1\<close>.
\<close>

definition pd_numbers_only :: pandas where
  "pd_numbers_only =
     \<lparr> pd_to_datetime = map (\<lambda>c. case c of Num x \<Rightarrow> Some \<lfloor>x\<rfloor> | _ \<Rightarrow> None),
       pd_parse_numeric = (\<lambda>s. None),
       pd_parse_int = (\<lambda>s. None),
       pd_str_of_num = (\<lambda>x. '''') \<rparr>"

definition pd_sample :: pandas where
  "pd_sample =
     \<lparr> pd_to_datetime =
         map (\<lambda>c. if c = Str ''2024-01-01'' then Some 1704067200000000000
                  else if c = Str ''2024-01-02'' then Some 1704153600000000000
                  else if c = Str ''2024-01-03'' then Some 1704240000000000000
                  else None),
       pd_parse_numeric = (\<lambda>s. if s = ''12'' then Some 12 else None),
       pd_parse_int = (\<lambda>s. if s = ''0'' then Some 0 else if s = ''1'' then Some 1 else None),
       pd_str_of_num = (\<lambda>x. '''') \<rparr>"

definition order_row ::
  "cell \<Rightarrow> int \<Rightarrow> real \<Rightarrow> string \<Rightarrow> cell \<Rightarrow> cell \<Rightarrow> int \<Rightarrow> order_rec" where
  "order_row oid ts v st c cust rep =
     \<lparr> order_id = oid, order_date = Some ts, order_value = v, delivery_time_minutes = None,
       order_status = st, city = c, customer_id = cust, is_repeat_customer = rep \<rparr>"

definition raw_row :: "cell \<Rightarrow> cell \<Rightarrow> cell \<Rightarrow> raw_order" where
  "raw_row oid d v =
     \<lparr> raw_order_id = oid, raw_order_date = d, raw_order_value = v,
       raw_delivery_time_minutes = NA, raw_order_status = Str ''Completed'',
       raw_city = Str ''Pune'', raw_customer_id = Str ''C1'', raw_is_repeat_customer = Num 0 \<rparr>"


section \<open>Facts about the building blocks\<close>

lemmas kpi_eval = compute_kpis_def Let_def nunique_def value_counts_def series_get_def

lemmas daily_eval = fig_orders_volume_trend_def groupby_days_def day_group_def dt_date_def
  ns_per_day_def List.map_filter_def

lemmas filter_eval = apply_filters_def filter_start_def filter_end_def filter_city_def
  filter_status_def truthy_def

lemmas load_eval = load_data_def dated_rows_def dropna_order_date_def to_datetime_def
  pd_numbers_only_def raw_row_def clean_row_def astype_int_def astype_str_def fillna_def
  to_numeric_def

lemma series_get_value_counts:
  "series_get (value_counts xs) k 0 = length (filter (\<lambda>x. x = k) xs)"
proof (cases "k \<in> set xs")
  case True
  then have "map_of (value_counts xs) k = Some (length (filter (\<lambda>x. x = k) xs))"
    unfolding value_counts_def by (simp add: map_of_map_restrict)
  then show ?thesis by (simp add: series_get_def)
next
  case False
  then have "map_of (value_counts xs) k = None"
    unfolding value_counts_def by (simp add: map_of_map_restrict)
  moreover from False have "filter (\<lambda>x. x = k) xs = []"
    by (auto simp: filter_empty_conv)
  ultimately show ?thesis by (simp add: series_get_def)
qed

lemma nunique_card: "nunique xs = card (set xs - {NA})"
proof -
  have "set (filter (\<lambda>c. c \<noteq> NA) xs) = set xs - {NA}" by auto
  then show ?thesis
    unfolding nunique_def by (simp add: length_remdups_card_conv)
qed

lemma nunique_le_length: "nunique xs \<le> length (filter (\<lambda>c. c \<noteq> NA) xs)"
  unfolding nunique_def by (rule length_remdups_leq)

lemma nunique_eq_length_iff:
  "nunique xs = length (filter (\<lambda>c. c \<noteq> NA) xs) \<longleftrightarrow> distinct (filter (\<lambda>c. c \<noteq> NA) xs)"
  unfolding nunique_def by (simp add: length_remdups_eq remdups_id_iff_distinct)

lemma nunique_filter_le: "nunique (map f (filter P xs)) \<le> nunique (map f xs)"
proof -
  have "set (map f (filter P xs)) - {NA} \<subseteq> set (map f xs) - {NA}" by auto
  then show ?thesis
    unfolding nunique_card by (intro card_mono) auto
qed

text \<open>Counting per key and adding up counts every row whose key is among the keys.\<close>

lemma group_counts_sum:
  "distinct ks \<Longrightarrow>
   (\<Sum>k\<leftarrow>ks. length (filter Q (filter (\<lambda>x. f x = Some k) xs)))
     = length (filter (\<lambda>x. Q x \<and> (\<exists>k\<in>set ks. f x = Some k)) xs)"
proof (induction ks)
  case Nil
  then show ?case by simp
next
  case (Cons k ks)
  have split: "length (filter (\<lambda>x. Q x \<and> (f x = Some k \<or> (\<exists>j\<in>set ks. f x = Some j))) xs)
      = length (filter Q (filter (\<lambda>x. f x = Some k) xs))
        + length (filter (\<lambda>x. Q x \<and> (\<exists>j\<in>set ks. f x = Some j)) xs)"
    using Cons.prems by (induction xs) auto
  from Cons show ?case by (simp add: split)
qed

lemma set_groupby_days:
  "set (groupby_days df) = {d. \<exists>r\<in>set df. dt_date (order_date r) = Some d}"
  unfolding groupby_days_def by (force simp: List.map_filter_def)

lemma distinct_groupby_days: "distinct (groupby_days df)"
  unfolding groupby_days_def by simp

lemma orders_volume_sum:
  "(\<Sum>p\<leftarrow>fig_orders_volume_trend df. snd p)
     = length (filter (\<lambda>r. order_id r \<noteq> NA \<and> order_date r \<noteq> None) df)"
proof -
  have "(\<Sum>p\<leftarrow>fig_orders_volume_trend df. snd p)
      = (\<Sum>d\<leftarrow>groupby_days df. length (filter (\<lambda>r. order_id r \<noteq> NA)
            (filter (\<lambda>r. dt_date (order_date r) = Some d) df)))"
    unfolding fig_orders_volume_trend_def day_group_def by (simp add: comp_def)
  also have "\<dots> = length (filter (\<lambda>r. order_id r \<noteq> NA \<and>
        (\<exists>d\<in>set (groupby_days df). dt_date (order_date r) = Some d)) df)"
    by (rule group_counts_sum [OF distinct_groupby_days])
  also have "\<dots> = length (filter (\<lambda>r. order_id r \<noteq> NA \<and> order_date r \<noteq> None) df)"
    by (rule arg_cong [where f = length], rule filter_cong)
       (auto simp: set_groupby_days dt_date_def)
  finally show ?thesis .
qed

text \<open>Each stage of the filter is a \<open>filter\<close> by the specification's predicate.\<close>

lemma filter_dates_eq:
  "filter_end e (filter_start s dff) = filter (spec_date_in_range s e) dff"
  by (cases s; cases e) (auto simp: filter_start_def filter_end_def spec_date_in_range_def
      intro: filter_cong)

lemma filter_city_eq: "filter_city cs dff = filter (\<lambda>r. spec_selected cs (city r)) dff"
  by (cases cs) (auto simp: filter_city_def truthy_def spec_selected_def)

lemma filter_status_eq:
  "filter_status ss dff = filter (\<lambda>r. spec_selected ss (order_status r)) dff"
  by (cases ss) (auto simp: filter_status_def truthy_def spec_selected_def)

lemma apply_filters_eq_filter:
  "apply_filters orders s e cs ss =
     filter (\<lambda>r. spec_date_in_range s e r \<and> spec_selected cs (city r)
               \<and> spec_selected ss (order_status r)) orders"
  unfolding apply_filters_def filter_dates_eq filter_city_eq filter_status_eq
  by (auto intro: filter_cong)

lemma spec_date_in_range_None [simp]: "spec_date_in_range None None r"
  by (simp add: spec_date_in_range_def)

lemma spec_selected_None [simp]: "spec_selected None v"
  by (simp add: spec_selected_def)

lemma stages_commute:
  assumes "f \<in> {filter_start s, filter_end e, filter_city cs, filter_status ss}"
    and "g \<in> {filter_start s, filter_end e, filter_city cs, filter_status ss}"
  shows "f \<circ> g = g \<circ> f"
proof -
  have st: "filter_start s = filter (spec_date_in_range s None)"
    using filter_dates_eq [of None s] by (auto simp: filter_end_def)
  have en: "filter_end e = filter (spec_date_in_range None e)"
    using filter_dates_eq [of e None] by (auto simp: filter_start_def)
  have ci: "filter_city cs = filter (\<lambda>r. spec_selected cs (city r))"
    by (rule ext) (rule filter_city_eq)
  have sa: "filter_status ss = filter (\<lambda>r. spec_selected ss (order_status r))"
    by (rule ext) (rule filter_status_eq)
  have "\<exists>P. f = filter P" "\<exists>Q. g = filter Q"
    using assms st en ci sa by auto
  then obtain P Q where "f = filter P" "g = filter Q" by blast
  then show ?thesis by (auto simp: fun_eq_iff intro: filter_cong)
qed

text \<open>\<open>load_data\<close> returns a table exactly when every kept row cleans without an error,
  and then the table is the kept rows, cleaned, in their order.\<close>

lemma collect_map_Inr:
  "collect (map f xs) = Inr ys \<Longrightarrow> map f xs = map Inr ys"
proof (induction xs arbitrary: ys)
  case Nil
  then show ?case by simp
next
  case (Cons x xs)
  then show ?case by (cases "f x") (auto split: sum.splits)
qed

lemma map_Inr_list_all2:
  "map f xs = map Inr ys \<Longrightarrow> list_all2 (\<lambda>y x. f x = Inr y) ys xs"
  by (induction xs arbitrary: ys) auto

lemma clean_row_fields:
  "clean_row pd b rd = Inr y \<Longrightarrow>
     order_date y = snd rd \<and>
     order_value y = fillna 0 (to_numeric pd (raw_order_value (fst rd)))"
  by (cases rd) (auto simp: clean_row_def split: sum.splits)

lemma load_data_rows:
  assumes "load_data pd df = Inr tbl"
  shows "list_all2 (\<lambda>y rd. clean_row pd (has_repeat_column df) rd = Inr y) tbl
           (dropna_order_date (dated_rows pd df))"
  using assms unfolding load_data_def by (intro map_Inr_list_all2 collect_map_Inr)

lemma load_data_column:
  assumes "load_data pd df = Inr tbl"
    and "\<And>rd y. clean_row pd (has_repeat_column df) rd = Inr y \<Longrightarrow> g y = h rd"
  shows "map g tbl = map h (dropna_order_date (dated_rows pd df))"
proof -
  have "list_all2 (\<lambda>y rd. g y = h rd) tbl (dropna_order_date (dated_rows pd df))"
    using load_data_rows [OF assms(1)] by (rule list_all2_mono) (rule assms(2))
  then show ?thesis
    by (induction rule: list_all2_induct) simp_all
qed





section \<open>The daily order counts and the total of orders\<close>

text \<open>
  Claim C1, as the code has it. For a frame whose rows all have a valid \<open>order_date\<close> (as
  every view of the loaded table has), the per-day counts of \<open>fig_orders_volume_trend\<close>
  add up to the number of rows whose \<open>order_id\<close> is not missing. \<open>total_orders\<close> counts
  distinct \<open>order_id\<close> values, so it is at most that sum, and the two are equal exactly
  when no \<open>order_id\<close> occurs in two rows.
\<close>

theorem orders_volume_sum_vs_total_orders:
  assumes "\<forall>r\<in>set df. order_date r \<noteq> None"
  shows "(\<Sum>p\<leftarrow>fig_orders_volume_trend df. snd p) = length (filter (\<lambda>r. order_id r \<noteq> NA) df)
       \<and> total_orders (compute_kpis df) \<le> (\<Sum>p\<leftarrow>fig_orders_volume_trend df. snd p)
       \<and> ((\<Sum>p\<leftarrow>fig_orders_volume_trend df. snd p) = total_orders (compute_kpis df)
            \<longleftrightarrow> distinct (filter (\<lambda>c. c \<noteq> NA) (map order_id df)))"
proof -
  have "filter (\<lambda>r. order_id r \<noteq> NA \<and> order_date r \<noteq> None) df = filter (\<lambda>r. order_id r \<noteq> NA) df"
    using assms by (intro filter_cong) auto
  then have s: "(\<Sum>p\<leftarrow>fig_orders_volume_trend df. snd p) = length (filter (\<lambda>r. order_id r \<noteq> NA) df)"
    by (simp add: orders_volume_sum)
  have l: "length (filter (\<lambda>r. order_id r \<noteq> NA) df) = length (filter (\<lambda>c. c \<noteq> NA) (map order_id df))"
    by (simp add: filter_map comp_def)
  have t: "total_orders (compute_kpis df) = nunique (map order_id df)"
    by (simp add: compute_kpis_def Let_def)
  show ?thesis
    unfolding s t l using nunique_le_length [of "map order_id df"]
      nunique_eq_length_iff [of "map order_id df"] by auto
qed

text \<open>Two orders on two days: the counts add up to 2, and there are 2 orders.\<close>

theorem orders_volume_sum_vs_total_orders_witness:
  "(\<Sum>p\<leftarrow>fig_orders_volume_trend
        [order_row (Str ''A1'') 0 10 ''Completed'' (Str ''Pune'') (Str ''C1'') 0,
         order_row (Str ''A2'') 86400000000000 20 ''Completed'' (Str ''Pune'') (Str ''C2'') 0]. snd p) = 2
   \<and> total_orders (compute_kpis
        [order_row (Str ''A1'') 0 10 ''Completed'' (Str ''Pune'') (Str ''C1'') 0,
         order_row (Str ''A2'') 86400000000000 20 ''Completed'' (Str ''Pune'') (Str ''C2'') 0]) = 2"
  using orders_volume_sum_vs_total_orders
    [of "[order_row (Str ''A1'') 0 10 ''Completed'' (Str ''Pune'') (Str ''C1'') 0,
          order_row (Str ''A2'') 86400000000000 20 ''Completed'' (Str ''Pune'') (Str ''C2'') 0]"]
  by (simp add: order_row_def)

text \<open>Claim C1 as stated fails where an \<open>order_id\<close> repeats: two rows of the order
  \<open>A1\<close> on one day are counted twice by the daily table and once by \<open>total_orders\<close>.\<close>

theorem orders_volume_sum_counterexample:
  "(\<Sum>p\<leftarrow>fig_orders_volume_trend
        [order_row (Str ''A1'') 0 10 ''Completed'' (Str ''Pune'') (Str ''C1'') 0,
         order_row (Str ''A1'') 0 5 ''Completed'' (Str ''Pune'') (Str ''C1'') 0]. snd p) = 2
   \<and> total_orders (compute_kpis
        [order_row (Str ''A1'') 0 10 ''Completed'' (Str ''Pune'') (Str ''C1'') 0,
         order_row (Str ''A1'') 0 5 ''Completed'' (Str ''Pune'') (Str ''C1'') 0]) = 1
   \<and> (\<Sum>p\<leftarrow>fig_orders_volume_trend
        [order_row (Str ''A1'') 0 10 ''Completed'' (Str ''Pune'') (Str ''C1'') 0,
         order_row (Str ''A1'') 0 5 ''Completed'' (Str ''Pune'') (Str ''C1'') 0]. snd p)
     \<noteq> total_orders (compute_kpis
        [order_row (Str ''A1'') 0 10 ''Completed'' (Str ''Pune'') (Str ''C1'') 0,
         order_row (Str ''A1'') 0 5 ''Completed'' (Str ''Pune'') (Str ''C1'') 0])"
  by (simp add: order_row_def kpi_eval daily_eval)

section \<open>The KPIs\<close>

text \<open>
  Claim C2. \<open>cancellation_rate\<close> is the number of rows whose \<open>order_status\<close> is
  \<^verbatim>\<open>Cancelled\<close>, divided by \<open>total_orders\<close>, times 100, and 0 when \<open>total_orders\<close> is 0;
  \<open>total_orders\<close> is the number of distinct \<open>order_id\<close> values that are not missing. The
  numerator counts rows.
\<close>

theorem cancellation_rate_counts_rows:
  "cancellation_rate (compute_kpis df) =
     (if total_orders (compute_kpis df) = 0 then 0
      else real (length (filter (\<lambda>r. order_status r = ''Cancelled'') df))
             / real (total_orders (compute_kpis df)) * 100)
   \<and> total_orders (compute_kpis df) = card (order_id ` set df - {NA})"
proof -
  have "length (filter (\<lambda>x. x = ''Cancelled'') (map order_status df))
      = length (filter (\<lambda>r. order_status r = ''Cancelled'') df)"
    by (simp add: filter_map comp_def)
  then show ?thesis
    by (simp add: compute_kpis_def Let_def series_get_value_counts nunique_card)
qed

text \<open>Two cancelled rows of one order: 2 rows over 1 order, a rate of 200.\<close>

theorem cancellation_rate_counts_rows_witness:
  "cancellation_rate (compute_kpis
        [order_row (Str ''A1'') 0 10 ''Cancelled'' (Str ''Pune'') (Str ''C1'') 0,
         order_row (Str ''A1'') 0 5 ''Cancelled'' (Str ''Pune'') (Str ''C1'') 0]) = 200"
  using cancellation_rate_counts_rows
    [of "[order_row (Str ''A1'') 0 10 ''Cancelled'' (Str ''Pune'') (Str ''C1'') 0,
          order_row (Str ''A1'') 0 5 ''Cancelled'' (Str ''Pune'') (Str ''C1'') 0]"]
  by (simp add: order_row_def)




text \<open>
  Claim C6. On a frame with no rows \<open>compute_kpis\<close> returns 0 for each of the five KPIs;
  it is a total function, each division guarded by its \<^verbatim>\<open>if\<close>. So the callback shows these
  values whenever its filters leave no row.
\<close>

theorem compute_kpis_empty:
  "compute_kpis [] = \<lparr> total_revenue = 0, total_orders = 0, aov = 0, repeat_rate = 0,
                        cancellation_rate = 0 \<rparr>
   \<and> (apply_filters orders s e cs ss = [] \<longrightarrow>
        d_kpis (update_dashboard orders s e cs ss)
          = \<lparr> total_revenue = 0, total_orders = 0, aov = 0, repeat_rate = 0,
               cancellation_rate = 0 \<rparr>)"
  by (simp add: compute_kpis_def update_dashboard_def Let_def nunique_def)

text \<open>A city selection that matches no row.\<close>

theorem compute_kpis_empty_witness:
  "d_kpis (update_dashboard
       [order_row (Str ''A1'') 0 10 ''Completed'' (Str ''Pune'') (Str ''C1'') 0]
       None None (Some [Str ''Delhi'']) None)
     = \<lparr> total_revenue = 0, total_orders = 0, aov = 0, repeat_rate = 0, cancellation_rate = 0 \<rparr>"
proof -
  have "apply_filters [order_row (Str ''A1'') 0 10 ''Completed'' (Str ''Pune'') (Str ''C1'') 0]
       None None (Some [Str ''Delhi'']) None = []"
    by (simp add: filter_eval order_row_def)
  with compute_kpis_empty show ?thesis by blast
qed

text \<open>
  Claim C10. \<open>repeat_rate\<close> lies between 0 and 100: the customers of the rows flagged as
  repeat are among the customers of all rows, and the rate is 0 when there is no customer.
\<close>

theorem repeat_rate_bounds:
  "0 \<le> repeat_rate (compute_kpis df) \<and> repeat_rate (compute_kpis df) \<le> 100"
proof -
  let ?rep = "nunique (map customer_id (filter (\<lambda>r. is_repeat_customer r = 1) df))"
  let ?all = "nunique (map customer_id df)"
  have le: "?rep \<le> ?all" by (rule nunique_filter_le)
  have r: "repeat_rate (compute_kpis df) = (if ?all > 0 then (real ?rep / real ?all) * 100 else 0)"
    by (simp add: compute_kpis_def Let_def)
  show ?thesis
  proof (cases "?all > 0")
    case True
    then have "real ?rep / real ?all \<le> 1" using le by simp
    then have hi: "(real ?rep / real ?all) * 100 \<le> 1 * 100"
      by (intro mult_right_mono) simp_all
    have lo: "0 \<le> (real ?rep / real ?all) * 100"
      by (intro mult_nonneg_nonneg) simp_all
    from True have "repeat_rate (compute_kpis df) = (real ?rep / real ?all) * 100"
      by (simp only: r if_True)
    with hi lo show ?thesis by simp
  next
    case False
    then show ?thesis unfolding r by simp
  qed
qed

text \<open>One repeat customer among two customers: a rate of 50.\<close>

theorem repeat_rate_bounds_witness:
  "repeat_rate (compute_kpis
        [order_row (Str ''A1'') 0 10 ''Completed'' (Str ''Pune'') (Str ''C1'') 1,
         order_row (Str ''A2'') 0 5 ''Completed'' (Str ''Pune'') (Str ''C2'') 0]) = 50
   \<and> repeat_rate (compute_kpis
        [order_row (Str ''A1'') 0 10 ''Completed'' (Str ''Pune'') (Str ''C1'') 1,
         order_row (Str ''A2'') 0 5 ''Completed'' (Str ''Pune'') (Str ''C2'') 0]) \<le> 100"
proof -
  let ?a = "[order_row (Str ''A1'') 0 10 ''Completed'' (Str ''Pune'') (Str ''C1'') 1,
         order_row (Str ''A2'') 0 5 ''Completed'' (Str ''Pune'') (Str ''C2'') 0]"
  have "repeat_rate (compute_kpis ?a) = 50"
    by (simp add: order_row_def kpi_eval)
  with repeat_rate_bounds [of ?a] show ?thesis by simp
qed

section \<open>The filter\<close>

text \<open>
  The date stages compare timestamps: a record passes if and only if
  \<open>start \<le> order_date\<close> (when a start is given) and \<open>order_date \<le> end\<close> (when an end is
  given), whatever the city and status selections, and a record whose \<open>order_date\<close> is
  the end bound itself passes the end bound.
\<close>

lemma date_range_timestamps:
  "apply_filters orders s e None None = filter (spec_date_in_range s e) orders
   \<and> (r \<in> set (apply_filters orders s e cs ss) \<longleftrightarrow>
        r \<in> set (apply_filters orders None None cs ss) \<and> spec_date_in_range s e r)
   \<and> (order_date r = Some d \<longrightarrow>
        spec_date_in_range s (Some d) r = spec_date_in_range s None r)"
proof -
  have a: "apply_filters orders s e None None = filter (spec_date_in_range s e) orders"
    by (simp add: apply_filters_eq_filter)
  have b: "r \<in> set (apply_filters orders s e cs ss) \<longleftrightarrow>
        r \<in> set (apply_filters orders None None cs ss) \<and> spec_date_in_range s e r"
    by (auto simp: apply_filters_eq_filter)
  have c: "order_date r = Some d \<longrightarrow>
        spec_date_in_range s (Some d) r = spec_date_in_range s None r"
    by (simp add: spec_date_in_range_def)
  from a b c show ?thesis by blast
qed

text \<open>
  Claim C3 on the code. The end bound that the date picker sends is a day, and the
  callback compares with the midnight that starts it. An order of 2024-01-03 at 10:30
  is on the end day 2024-01-03 and is dropped. With two orders, of 2024-01-01 and of
  2024-01-03 at 10:30, the range that the date picker starts with is 2024-01-01 to
  2024-01-03, and the callback on that range keeps one order of the two that the
  table has.
\<close>

theorem end_date_drops_later_orders:
  "dt_date (Some 1704277800000000000) = dt_date (Some 1704240000000000000)
   \<and> apply_filters
        [order_row (Str ''A2'') 1704277800000000000 20 ''Completed'' (Str ''Pune'') (Str ''C2'') 0]
        None (Some 1704240000000000000) None None = []
   \<and> date_picker_range
        [order_row (Str ''A1'') 1704067200000000000 10 ''Completed'' (Str ''Pune'') (Str ''C1'') 0,
         order_row (Str ''A2'') 1704277800000000000 20 ''Completed'' (Str ''Pune'') (Str ''C2'') 0]
      = (Some 1704067200000000000, Some 1704240000000000000)
   \<and> apply_filters
        [order_row (Str ''A1'') 1704067200000000000 10 ''Completed'' (Str ''Pune'') (Str ''C1'') 0,
         order_row (Str ''A2'') 1704277800000000000 20 ''Completed'' (Str ''Pune'') (Str ''C2'') 0]
        (Some 1704067200000000000) (Some 1704240000000000000) None None
      = [order_row (Str ''A1'') 1704067200000000000 10 ''Completed'' (Str ''Pune'') (Str ''C1'') 0]
   \<and> total_orders (compute_kpis
        [order_row (Str ''A1'') 1704067200000000000 10 ''Completed'' (Str ''Pune'') (Str ''C1'') 0,
         order_row (Str ''A2'') 1704277800000000000 20 ''Completed'' (Str ''Pune'') (Str ''C2'') 0])
      = 2
   \<and> total_orders (d_kpis (update_dashboard
        [order_row (Str ''A1'') 1704067200000000000 10 ''Completed'' (Str ''Pune'') (Str ''C1'') 0,
         order_row (Str ''A2'') 1704277800000000000 20 ''Completed'' (Str ''Pune'') (Str ''C2'') 0]
        (Some 1704067200000000000) (Some 1704240000000000000) None None))
      = 1"
proof -
  let ?t = "[order_row (Str ''A1'') 1704067200000000000 10 ''Completed'' (Str ''Pune'') (Str ''C1'') 0,
         order_row (Str ''A2'') 1704277800000000000 20 ''Completed'' (Str ''Pune'') (Str ''C2'') 0]"
  have day: "dt_date (Some 1704277800000000000) = dt_date (Some 1704240000000000000)"
    by (simp add: dt_date_def ns_per_day_def)
  have one: "apply_filters
        [order_row (Str ''A2'') 1704277800000000000 20 ''Completed'' (Str ''Pune'') (Str ''C2'') 0]
        None (Some 1704240000000000000) None None = []"
    by (simp add: filter_eval order_row_def)
  have range: "date_picker_range ?t = (Some 1704067200000000000, Some 1704240000000000000)"
    by (simp add: date_picker_range_def List.map_filter_def order_row_def ns_per_day_def)
  have view: "apply_filters ?t (Some 1704067200000000000) (Some 1704240000000000000) None None
      = [order_row (Str ''A1'') 1704067200000000000 10 ''Completed'' (Str ''Pune'') (Str ''C1'') 0]"
    by (simp add: filter_eval order_row_def)
  have all: "total_orders (compute_kpis ?t) = 2"
    by (simp add: order_row_def kpi_eval)
  have shown: "total_orders (d_kpis (update_dashboard ?t
        (Some 1704067200000000000) (Some 1704240000000000000) None None)) = 1"
    unfolding update_dashboard_def Let_def view by (simp add: order_row_def kpi_eval)
  from day one range view all shown show ?thesis by (simp only: simp_thms)
qed

text \<open>
  Claim C7. The city stage and the status stage keep a record if and only if its value
  is in the supplied list, and keep every record when the list is empty or absent.
\<close>

theorem membership_filters:
  "filter_city cs dff = filter (\<lambda>r. spec_selected cs (city r)) dff
   \<and> filter_status ss dff = filter (\<lambda>r. spec_selected ss (order_status r)) dff
   \<and> (r \<in> set (apply_filters orders s e cs ss) \<longleftrightarrow>
        r \<in> set (apply_filters orders s e None None)
        \<and> spec_selected cs (city r) \<and> spec_selected ss (order_status r))
   \<and> apply_filters orders s e (Some []) (Some []) = apply_filters orders s e None None"
  by (auto simp: apply_filters_eq_filter filter_city_eq filter_status_eq spec_selected_def)

text \<open>A city selection of \<^verbatim>\<open>Delhi\<close> with an empty status selection keeps the row of
  Delhi, whatever its status.\<close>

theorem membership_filters_witness:
  "apply_filters
      [order_row (Str ''A1'') 0 10 ''Completed'' (Str ''Pune'') (Str ''C1'') 0,
       order_row (Str ''A2'') 0 20 ''Cancelled'' (Str ''Delhi'') (Str ''C2'') 0]
      None None (Some [Str ''Delhi'']) (Some [])
    = [order_row (Str ''A2'') 0 20 ''Cancelled'' (Str ''Delhi'') (Str ''C2'') 0]"
proof -
  let ?t = "[order_row (Str ''A1'') 0 10 ''Completed'' (Str ''Pune'') (Str ''C1'') 0,
       order_row (Str ''A2'') 0 20 ''Cancelled'' (Str ''Delhi'') (Str ''C2'') 0]"
  have "apply_filters ?t None None (Some [Str ''Delhi'']) (Some [])
      = filter_status (Some []) (filter_city (Some [Str ''Delhi'']) ?t)"
    by (simp add: apply_filters_def filter_start_def filter_end_def)
  also have "\<dots> = filter (\<lambda>r. spec_selected (Some []) (order_status r))
       (filter (\<lambda>r. spec_selected (Some [Str ''Delhi'']) (city r)) ?t)"
    using membership_filters [of "Some [Str ''Delhi'']" ?t "Some []"]
      membership_filters [of "Some [Str ''Delhi'']" "filter_city (Some [Str ''Delhi'']) ?t" "Some []"]
    by simp
  also have "\<dots> = [order_row (Str ''A2'') 0 20 ''Cancelled'' (Str ''Delhi'') (Str ''C2'') 0]"
    by (simp add: spec_selected_def order_row_def)
  finally show ?thesis .
qed

text \<open>
  Claim C8. The four stages can be applied in any order: every list \<open>fs\<close> that holds the
  four stages, each once, gives the view of \<open>apply_filters\<close> when its stages are applied
  one after the other. In particular the date stages followed by the city stage give what
  the city stage followed by the date stages gives.
\<close>

theorem filter_order_independent:
  assumes "mset fs = mset [filter_start s, filter_end e, filter_city cs, filter_status ss]"
  shows "fold (\<lambda>f. f) fs orders = apply_filters orders s e cs ss
       \<and> filter_city cs (filter_end e (filter_start s orders))
           = filter_end e (filter_start s (filter_city cs orders))"
proof -
  let ?stages = "[filter_start s, filter_end e, filter_city cs, filter_status ss]"
  have comm: "\<And>f g. f \<in> set ?stages \<Longrightarrow> g \<in> set ?stages \<Longrightarrow> (\<lambda>f. f) f \<circ> (\<lambda>f. f) g = (\<lambda>f. f) g \<circ> (\<lambda>f. f) f"
    by (rule stages_commute [of _ s e cs ss]) simp_all
  have "fold (\<lambda>f. f) ?stages = fold (\<lambda>f. f) fs"
    by (rule fold_multiset_equiv [OF comm assms [symmetric]])
  then have "fold (\<lambda>f. f) fs orders = fold (\<lambda>f. f) ?stages orders" by simp
  also have "\<dots> = apply_filters orders s e cs ss" by (simp add: apply_filters_def)
  finally have a: "fold (\<lambda>f. f) fs orders = apply_filters orders s e cs ss" .
  have b: "filter_city cs (filter_end e (filter_start s orders))
           = filter_end e (filter_start s (filter_city cs orders))"
    unfolding filter_dates_eq filter_city_eq by (auto intro: filter_cong)
  from a b show ?thesis by simp
qed

text \<open>The stages in the reverse of the source's order, on three rows.\<close>

theorem filter_order_independent_witness:
  "fold (\<lambda>f. f)
      [filter_status (Some [''Cancelled'']), filter_city (Some [Str ''Pune'']),
       filter_end (Some 172800000000000), filter_start (Some 86400000000000)]
      [order_row (Str ''A1'') 0 10 ''Cancelled'' (Str ''Pune'') (Str ''C1'') 0,
       order_row (Str ''A2'') 86400000000000 20 ''Cancelled'' (Str ''Pune'') (Str ''C2'') 0,
       order_row (Str ''A3'') 172800000000000 30 ''Cancelled'' (Str ''Delhi'') (Str ''C3'') 0]
    = apply_filters
      [order_row (Str ''A1'') 0 10 ''Cancelled'' (Str ''Pune'') (Str ''C1'') 0,
       order_row (Str ''A2'') 86400000000000 20 ''Cancelled'' (Str ''Pune'') (Str ''C2'') 0,
       order_row (Str ''A3'') 172800000000000 30 ''Cancelled'' (Str ''Delhi'') (Str ''C3'') 0]
      (Some 86400000000000) (Some 172800000000000) (Some [Str ''Pune'']) (Some [''Cancelled''])"
proof -
  have m: "mset [filter_status (Some [''Cancelled'']), filter_city (Some [Str ''Pune'']),
       filter_end (Some 172800000000000), filter_start (Some 86400000000000)]
     = mset [filter_start (Some 86400000000000), filter_end (Some 172800000000000),
         filter_city (Some [Str ''Pune'']), filter_status (Some [''Cancelled''])]"
    by (simp add: add_mset_commute)
  show ?thesis using filter_order_independent [OF m] by blast
qed

section \<open>The loaded table\<close>

text \<open>
  Claim C5, as the code has it. When \<open>load_data\<close> returns a table, the \<open>order_value\<close> of
  each of its records is a number, never missing: the number of the raw cell where
  that cell is a number or text that parses as one, and 0 where the raw cell is missing
  or does not parse. A number passes unchanged, whatever its sign.
\<close>

theorem load_data_order_value:
  assumes "load_data pd df = Inr tbl"
  shows "map order_value tbl =
           map (\<lambda>(r, d). fillna 0 (to_numeric pd (raw_order_value r)))
             (dropna_order_date (dated_rows pd df))
       \<and> (\<forall>x. fillna 0 (to_numeric pd (Num x)) = x)
       \<and> (\<forall>s y. pd_parse_numeric pd s = Some y \<longrightarrow> fillna 0 (to_numeric pd (Str s)) = y)
       \<and> (\<forall>s. pd_parse_numeric pd s = None \<longrightarrow> fillna 0 (to_numeric pd (Str s)) = 0)
       \<and> fillna 0 (to_numeric pd NA) = 0"
proof -
  have "map order_value tbl =
           map (\<lambda>(r, d). fillna 0 (to_numeric pd (raw_order_value r)))
             (dropna_order_date (dated_rows pd df))"
    using assms by (rule load_data_column) (auto dest: clean_row_fields)
  then show ?thesis by (simp add: fillna_def to_numeric_def)
qed

text \<open>A frame read as text, with the values \<^verbatim>\<open>12\<close>, \<^verbatim>\<open>abc\<close> and a missing cell on three
  valid dates: the values of the table are 12, 0 and 0.\<close>

theorem load_data_order_value_witness:
  "load_data pd_sample
      \<lparr> has_repeat_column = True,
        raw_rows = [raw_row (Str ''A1'') (Str ''2024-01-01'') (Str ''12''),
                    raw_row (Str ''A2'') (Str ''2024-01-02'') (Str ''abc''),
                    raw_row (Str ''A3'') (Str ''2024-01-03'') NA] \<rparr> \<noteq> Inl ValueError
   \<and> (case load_data pd_sample
      \<lparr> has_repeat_column = True,
        raw_rows = [raw_row (Str ''A1'') (Str ''2024-01-01'') (Str ''12''),
                    raw_row (Str ''A2'') (Str ''2024-01-02'') (Str ''abc''),
                    raw_row (Str ''A3'') (Str ''2024-01-03'') NA] \<rparr>
       of Inl e \<Rightarrow> [] | Inr tbl \<Rightarrow> map order_value tbl)
      = [12, 0, 0]"
proof -
  let ?df = "\<lparr> has_repeat_column = True,
        raw_rows = [raw_row (Str ''A1'') (Str ''2024-01-01'') (Str ''12''),
                    raw_row (Str ''A2'') (Str ''2024-01-02'') (Str ''abc''),
                    raw_row (Str ''A3'') (Str ''2024-01-03'') NA] \<rparr>"
  obtain tbl where t: "load_data pd_sample ?df = Inr tbl"
    by (simp add: load_data_def dated_rows_def dropna_order_date_def to_datetime_def
        pd_sample_def raw_row_def clean_row_def astype_int_def)
  have "map order_value tbl = [12, 0, 0]"
    using load_data_order_value [OF t]
    by (simp add: dated_rows_def dropna_order_date_def to_datetime_def pd_sample_def
        raw_row_def fillna_def to_numeric_def)
  with t show ?thesis by simp
qed

text \<open>Claim C5 as stated fails on a negative value: a raw \<open>order_value\<close> of \<open>-5\<close> is the
  \<open>order_value\<close> of the cleaned record.\<close>

theorem load_data_order_value_counterexample:
  "load_data pd_numbers_only
      \<lparr> has_repeat_column = False, raw_rows = [raw_row (Str ''A1'') (Num 0) (Num (- 5))] \<rparr>
    = Inr [\<lparr> order_id = Str ''A1'', order_date = Some 0, order_value = - 5,
             delivery_time_minutes = None, order_status = ''Completed'', city = Str ''Pune'',
             customer_id = Str ''C1'', is_repeat_customer = 0 \<rparr>]
   \<and> order_value \<lparr> order_id = Str ''A1'', order_date = Some 0, order_value = - 5,
             delivery_time_minutes = None, order_status = ''Completed'', city = Str ''Pune'',
             customer_id = Str ''C1'', is_repeat_customer = 0 \<rparr> < 0"
  by (simp add: load_eval)

text \<open>
  Claim C9. When \<open>load_data\<close> returns a table, every record of it has a valid
  \<open>order_date\<close>. The records of the table are, one for one and in their order, the raw
  rows whose converted date is valid, cleaned; so the dates of the table are the valid
  entries of the converted column, a row whose date did not parse has no record in the
  table, and a row with a missing date cell is never kept. Every view that the filter
  makes of the table is made of records of the table and has valid dates only, and the
  KPIs and the daily tables of the callback are computed from that view.
\<close>

theorem load_data_valid_dates:
  assumes "load_data pd df = Inr tbl"
  shows "(\<forall>r\<in>set tbl. order_date r \<noteq> None)
       \<and> list_all2 (\<lambda>y rd. clean_row pd (has_repeat_column df) rd = Inr y \<and> snd rd \<noteq> None
                              \<and> raw_order_date (fst rd) \<noteq> NA)
           tbl (filter (\<lambda>rd. snd rd \<noteq> None) (dated_rows pd df))
       \<and> map order_date tbl = filter (\<lambda>d. d \<noteq> None) (map snd (dated_rows pd df))
       \<and> (\<forall>r\<in>set (apply_filters tbl s e cs ss). r \<in> set tbl \<and> order_date r \<noteq> None)
       \<and> update_dashboard tbl s e cs ss
           = \<lparr> d_kpis = compute_kpis (apply_filters tbl s e cs ss),
               d_revenue_trend = fig_revenue_trend (apply_filters tbl s e cs ss),
               d_orders_volume_trend = fig_orders_volume_trend (apply_filters tbl s e cs ss) \<rparr>"
proof -
  let ?kept = "filter (\<lambda>rd. snd rd \<noteq> None) (dated_rows pd df)"
  have kept: "dropna_order_date (dated_rows pd df) = ?kept"
    by (simp add: dropna_order_date_def case_prod_unfold)
  have na: "raw_order_date (fst rd) \<noteq> NA" if "rd \<in> set ?kept" for rd
  proof -
    from that have m: "rd \<in> set (dated_rows pd df)" and v: "snd rd \<noteq> None" by auto
    from m obtain i where i: "i < length (dated_rows pd df)" and rd: "rd = dated_rows pd df ! i"
      by (auto simp: in_set_conv_nth)
    let ?col = "map raw_order_date (raw_rows df)"
    from i have il: "i < length (raw_rows df)" "i < length (to_datetime pd ?col)"
      by (simp_all add: dated_rows_def)
    then have ip: "i < length (pd_to_datetime pd ?col)"
      by (simp add: to_datetime_def)
    have "snd rd = to_datetime pd ?col ! i" "fst rd = raw_rows df ! i"
      using il by (simp_all add: rd dated_rows_def)
    moreover have "to_datetime pd ?col ! i
        = (case raw_order_date (raw_rows df ! i) of NA \<Rightarrow> None | _ \<Rightarrow> pd_to_datetime pd ?col ! i)"
      using il ip by (simp add: to_datetime_def)
    ultimately show ?thesis using v by (auto split: cell.splits)
  qed
  have rows: "list_all2 (\<lambda>y rd. clean_row pd (has_repeat_column df) rd = Inr y) tbl ?kept"
    using load_data_rows [OF assms] by (simp only: kept)
  have all2: "list_all2 (\<lambda>y rd. clean_row pd (has_repeat_column df) rd = Inr y \<and> snd rd \<noteq> None
                              \<and> raw_order_date (fst rd) \<noteq> NA) tbl ?kept"
    using rows
  proof (rule list.rel_mono_strong)
    fix y rd assume "rd \<in> set ?kept" "clean_row pd (has_repeat_column df) rd = Inr y"
    then show "clean_row pd (has_repeat_column df) rd = Inr y \<and> snd rd \<noteq> None
        \<and> raw_order_date (fst rd) \<noteq> NA"
      using na by auto
  qed
  have "map order_date tbl = map snd (dropna_order_date (dated_rows pd df))"
    using assms by (rule load_data_column) (simp add: clean_row_fields)
  then have col: "map order_date tbl = map snd ?kept"
    by (simp only: kept)
  have dates: "map order_date tbl = filter (\<lambda>d. d \<noteq> None) (map snd (dated_rows pd df))"
    unfolding col by (simp add: filter_map comp_def)
  have "set (map order_date tbl) \<subseteq> {d. d \<noteq> None}"
    unfolding dates by auto
  then have valid: "\<forall>r\<in>set tbl. order_date r \<noteq> None" by auto
  have "set (apply_filters tbl s e cs ss) \<subseteq> set tbl"
    by (simp add: apply_filters_eq_filter)
  with valid have down: "\<forall>r\<in>set (apply_filters tbl s e cs ss). r \<in> set tbl \<and> order_date r \<noteq> None"
    by blast
  have dash: "update_dashboard tbl s e cs ss
           = \<lparr> d_kpis = compute_kpis (apply_filters tbl s e cs ss),
               d_revenue_trend = fig_revenue_trend (apply_filters tbl s e cs ss),
               d_orders_volume_trend = fig_orders_volume_trend (apply_filters tbl s e cs ss) \<rparr>"
    by (simp add: update_dashboard_def Let_def)
  from valid all2 dates down dash show ?thesis by blast
qed

text \<open>A frame read as text with a valid date, an unparseable date, a missing date and
  a valid date: the table has the first and the last row, and the KPIs count two orders
  worth 7.\<close>

theorem load_data_valid_dates_witness:
  "(case load_data pd_sample
      \<lparr> has_repeat_column = False,
        raw_rows = [raw_row (Str ''A1'') (Str ''2024-01-01'') (Num 3),
                    raw_row (Str ''A2'') (Str ''not a date'') (Num 12),
                    raw_row (Str ''A3'') NA (Num 5),
                    raw_row (Str ''A4'') (Str ''2024-01-03'') (Num 4)] \<rparr>
       of Inl e \<Rightarrow> [] | Inr tbl \<Rightarrow> map order_date tbl)
     = [Some 1704067200000000000, Some 1704240000000000000]
   \<and> (case load_data pd_sample
      \<lparr> has_repeat_column = False,
        raw_rows = [raw_row (Str ''A1'') (Str ''2024-01-01'') (Num 3),
                    raw_row (Str ''A2'') (Str ''not a date'') (Num 12),
                    raw_row (Str ''A3'') NA (Num 5),
                    raw_row (Str ''A4'') (Str ''2024-01-03'') (Num 4)] \<rparr>
       of Inl e \<Rightarrow> [] | Inr tbl \<Rightarrow> map order_id tbl)
     = [Str ''A1'', Str ''A4'']"
proof -
  let ?df = "\<lparr> has_repeat_column = False,
        raw_rows = [raw_row (Str ''A1'') (Str ''2024-01-01'') (Num 3),
                    raw_row (Str ''A2'') (Str ''not a date'') (Num 12),
                    raw_row (Str ''A3'') NA (Num 5),
                    raw_row (Str ''A4'') (Str ''2024-01-03'') (Num 4)] \<rparr>"
  have t: "load_data pd_sample ?df
      = Inr [\<lparr> order_id = Str ''A1'', order_date = Some 1704067200000000000, order_value = 3,
               delivery_time_minutes = None, order_status = ''Completed'', city = Str ''Pune'',
               customer_id = Str ''C1'', is_repeat_customer = 0 \<rparr>,
             \<lparr> order_id = Str ''A4'', order_date = Some 1704240000000000000, order_value = 4,
               delivery_time_minutes = None, order_status = ''Completed'', city = Str ''Pune'',
               customer_id = Str ''C1'', is_repeat_customer = 0 \<rparr>]"
    by (simp add: load_data_def dated_rows_def dropna_order_date_def to_datetime_def
        pd_sample_def raw_row_def clean_row_def fillna_def to_numeric_def astype_str_def)
  show ?thesis
    using load_data_valid_dates [OF t, of None None None None]
    by (simp add: t)
qed

end
